theory Spec2Isabelle
  imports
    Complex_Main
    "HOL-Library.Sublist"
    "HOL-Library.Char_ord"
    "HOL-Library.List_Lexorder"
    "HOL-Library.Multiset"
begin

section \<open>SkillBridge front end: the mock store and the data-access call\<close>

text \<open>
  The development embeds the data layer of \<^verbatim>\<open>src/App.tsx\<close>: the in-memory mock store
  (\<^verbatim>\<open>getSkills\<close>, \<^verbatim>\<open>getOpps\<close>, \<^verbatim>\<open>postOpp\<close>, \<^verbatim>\<open>getUsers\<close>, \<^verbatim>\<open>postUser\<close>,
  \<^verbatim>\<open>getMatches\<close>) and the function \<^verbatim>\<open>api\<close> that routes a request to the mock store or
  to the network. The three arrays closed over by \<^verbatim>\<open>mock\<close> are a record that every
  operation takes and returns; a \<^verbatim>\<open>throw\<close> (or a rejected promise) is the left summand
  of the result. What the platform supplies (\<^verbatim>\<open>JSON.parse\<close>, \<^verbatim>\<open>fetch\<close>,
  \<^verbatim>\<open>toUpperCase\<close>, \<^verbatim>\<open>localeCompare\<close>, the value drawn by \<^verbatim>\<open>uid()\<close>, the text of
  \<^verbatim>\<open>new Date().toISOString()\<close>) is a parameter.
\<close>

subsection \<open>Values\<close>

text \<open>
  Request bodies are typed \<^verbatim>\<open>any\<close>: they are whatever \<^verbatim>\<open>JSON.parse\<close> produced, or
  \<^verbatim>\<open>undefined\<close>. An object is the list of its own properties, each key once.
\<close>

datatype jsval =
    JUndefined
  | JNull
  | JBool bool
  | JNum real
  | JStr string
  | JArr "jsval list"
  | JObj "(string \<times> jsval) list"

datatype error =
    TypeError
  | SyntaxError
  | Error string

record Skill =
  skill_id :: string
  skill_name :: string

text \<open>
  \<^verbatim>\<open>title\<close>, \<^verbatim>\<open>description\<close>, \<^verbatim>\<open>name\<close> and \<^verbatim>\<open>email\<close> are declared \<^verbatim>\<open>string\<close> but are
  copied unchecked from the body, so at run time they hold any value. The optional
  \<^verbatim>\<open>matchScore\<close> is \<open>None\<close> when the property is absent.
\<close>

record Opportunity =
  opp_id :: string
  title :: jsval
  description :: jsval
  createdAt :: string
  opp_skills :: "Skill list"
  matchScore :: "int option"

record User =
  user_id :: string
  user_name :: jsval
  email :: jsval
  user_skills :: "Skill list"

record store =
  skills :: "Skill list"
  opportunities :: "Opportunity list"
  users :: "User list"

subsection \<open>The platform\<close>

text \<open>
  The part of \<^verbatim>\<open>RequestInit\<close> the callers set; \<open>None\<close> is an absent property. The
  body is the text handed to \<^verbatim>\<open>String(options.body)\<close>.
\<close>

record RequestInit =
  init_headers :: "(string \<times> string) list option"
  init_method :: "string option"
  init_body :: "string option"

text \<open>
  What \<^verbatim>\<open>await fetch(...)\<close> gives: a rejection, or a response with its status and body
  text. \<^verbatim>\<open>res.ok\<close> is a status from 200 to 299.
\<close>

datatype fetch_result = Rejected | Response nat string

text \<open>
  The functions of the platform that the code calls and this development does not
  define: the JSON parser, the network, the Unicode upper-casing of a string, and the
  locale's collation of two strings (negative when the first collates first).
\<close>

record platform =
  JSON_parse :: "string \<Rightarrow> error + jsval"
  fetch :: "string \<Rightarrow> RequestInit \<Rightarrow> fetch_result"
  toUpperCase :: "string \<Rightarrow> string"
  localeCompare :: "string \<Rightarrow> string \<Rightarrow> int"

subsection \<open>JavaScript primitives used by the store\<close>

text \<open>The test \<^verbatim>\<open>x || y\<close> and \<^verbatim>\<open>x ? a : b\<close> make of a value.\<close>

fun truthy :: "jsval \<Rightarrow> bool" where
  "truthy JUndefined = False"
| "truthy JNull = False"
| "truthy (JBool b) = b"
| "truthy (JNum n) = (n \<noteq> 0)"
| "truthy (JStr s) = (s \<noteq> [])"
| "truthy (JArr vs) = True"
| "truthy (JObj kvs) = True"

text \<open>
  \<^verbatim>\<open>v.k\<close> for the keys read here (\<^verbatim>\<open>title\<close>, \<^verbatim>\<open>description\<close>, \<^verbatim>\<open>name\<close>, \<^verbatim>\<open>email\<close>,
  \<^verbatim>\<open>skillIds\<close>), none of which a prototype defines: reading a property of
  \<^verbatim>\<open>undefined\<close> or \<^verbatim>\<open>null\<close> throws, an object gives its own property or \<^verbatim>\<open>undefined\<close>,
  every other value gives \<^verbatim>\<open>undefined\<close>.
\<close>

fun get_prop :: "jsval \<Rightarrow> string \<Rightarrow> error + jsval" where
  "get_prop JUndefined k = Inl TypeError"
| "get_prop JNull k = Inl TypeError"
| "get_prop (JObj kvs) k = Inr (case map_of kvs k of Some v \<Rightarrow> v | None \<Rightarrow> JUndefined)"
| "get_prop v k = Inr JUndefined"

text \<open>\<^verbatim>\<open>v?.k\<close>: \<^verbatim>\<open>undefined\<close> when \<^verbatim>\<open>v\<close> is \<^verbatim>\<open>undefined\<close> or \<^verbatim>\<open>null\<close>.\<close>

fun opt_prop :: "jsval \<Rightarrow> string \<Rightarrow> jsval" where
  "opt_prop (JObj kvs) k = (case map_of kvs k of Some v \<Rightarrow> v | None \<Rightarrow> JUndefined)"
| "opt_prop v k = JUndefined"

text \<open>\<^verbatim>\<open>x || []\<close>.\<close>

definition or_empty :: "jsval \<Rightarrow> jsval" where
  "or_empty x = (if truthy x then x else JArr [])"

text \<open>
  \<^verbatim>\<open>x.includes(id)\<close> with a string \<^verbatim>\<open>id\<close>: an array compares its elements with the
  argument (only an equal string is the same value), a string searches for the argument
  as a substring, and no other value has a callable \<^verbatim>\<open>includes\<close>, so the call throws.
\<close>

fun js_includes :: "jsval \<Rightarrow> string \<Rightarrow> error + bool" where
  "js_includes (JArr vs) k = Inr (JStr k \<in> set vs)"
| "js_includes (JStr s) k = Inr (sublist k s)"
| "js_includes v k = Inl TypeError"

text \<open>
  \<^verbatim>\<open>skills.filter(p)\<close> where the callback may throw: the callback runs on each element
  in order, and the first throw ends the call. On an empty array it never runs.
\<close>

fun filter_skills :: "(Skill \<Rightarrow> error + bool) \<Rightarrow> Skill list \<Rightarrow> error + Skill list" where
  "filter_skills p [] = Inr []"
| "filter_skills p (s # ss) =
     (case p s of
        Inl e \<Rightarrow> Inl e
      | Inr b \<Rightarrow>
          (case filter_skills p ss of
             Inl e \<Rightarrow> Inl e
           | Inr r \<Rightarrow> Inr (if b then s # r else r)))"

text \<open>
  \<^verbatim>\<open>xs.sort(cmp)\<close> on a fresh copy. The language fixes the result, not the algorithm:
  the sort is stable and orders by the comparator. A stable insertion sort computes it;
  an element stays in front of the ones that followed it unless the comparator is
  positive.
\<close>

fun insort_by :: "('a \<Rightarrow> 'a \<Rightarrow> int) \<Rightarrow> 'a \<Rightarrow> 'a list \<Rightarrow> 'a list" where
  "insort_by cmp x [] = [x]"
| "insort_by cmp x (y # ys) =
     (if cmp x y \<le> 0 then x # y # ys else y # insort_by cmp x ys)"

definition sort_by :: "('a \<Rightarrow> 'a \<Rightarrow> int) \<Rightarrow> 'a list \<Rightarrow> 'a list" where
  "sort_by cmp xs = foldr (insort_by cmp) xs []"

subsection \<open>The mock store\<close>

text \<open>\<^verbatim>\<open>skills.filter((s) => (body?.skillIds || []).includes(s.id))\<close>\<close>

definition chosen :: "store \<Rightarrow> jsval \<Rightarrow> error + Skill list" where
  "chosen st body =
     filter_skills (\<lambda>s. js_includes (or_empty (opt_prop body ''skillIds'')) (skill_id s)) (skills st)"

definition getSkills :: "store \<Rightarrow> Skill list \<times> store" where
  "getSkills st = (skills st, st)"

definition getOpps :: "platform \<Rightarrow> store \<Rightarrow> Opportunity list \<times> store" where
  "getOpps plat st =
     (sort_by (\<lambda>a b. localeCompare plat (createdAt b) (createdAt a)) (opportunities st), st)"

text \<open>
  \<^verbatim>\<open>postOpp\<close>: \<open>uid\<close> is the value \<^verbatim>\<open>uid()\<close> returns in this call and \<open>now\<close> the text of
  \<^verbatim>\<open>new Date().toISOString()\<close>. Every throw happens before \<^verbatim>\<open>unshift\<close>.
\<close>

definition postOpp :: "string \<Rightarrow> string \<Rightarrow> store \<Rightarrow> jsval \<Rightarrow> (error + Opportunity) \<times> store" where
  "postOpp uid now st body =
     (case chosen st body of
        Inl e \<Rightarrow> (Inl e, st)
      | Inr ch \<Rightarrow>
          (case get_prop body ''title'' of
             Inl e \<Rightarrow> (Inl e, st)
           | Inr t \<Rightarrow>
               (case get_prop body ''description'' of
                  Inl e \<Rightarrow> (Inl e, st)
                | Inr d \<Rightarrow>
                    (let opp = \<lparr>opp_id = uid, title = t, description = d, createdAt = now,
                                opp_skills = ch, matchScore = None\<rparr>
                     in (Inr opp, st\<lparr>opportunities := opp # opportunities st\<rparr>)))))"

definition getUsers :: "store \<Rightarrow> User list \<times> store" where
  "getUsers st = (users st, st)"

definition postUser :: "string \<Rightarrow> store \<Rightarrow> jsval \<Rightarrow> (error + User) \<times> store" where
  "postUser uid st body =
     (case chosen st body of
        Inl e \<Rightarrow> (Inl e, st)
      | Inr ch \<Rightarrow>
          (case get_prop body ''name'' of
             Inl e \<Rightarrow> (Inl e, st)
           | Inr n \<Rightarrow>
               (case get_prop body ''email'' of
                  Inl e \<Rightarrow> (Inl e, st)
                | Inr m \<Rightarrow>
                    (let user = \<lparr>user_id = uid, user_name = n, email = m, user_skills = ch\<rparr>
                     in (Inr user, st\<lparr>users := users st @ [user]\<rparr>)))))"

text \<open>The score of one opportunity: the \<^verbatim>\<open>reduce\<close> over its skills, from 0.\<close>

definition score :: "string set \<Rightarrow> Opportunity \<Rightarrow> int" where
  "score uSkillIds opp =
     foldl (\<lambda>acc s. acc + (if skill_id s \<in> uSkillIds then 1 else 0)) 0 (opp_skills opp)"

definition getMatches :: "store \<Rightarrow> string \<Rightarrow> Opportunity list \<times> store" where
  "getMatches st userId =
     (case find (\<lambda>x. user_id x = userId) (users st) of
        None \<Rightarrow> ([], st)
      | Some u \<Rightarrow>
          (let uSkillIds = set (map skill_id (user_skills u))
           in (map (\<lambda>opp. opp\<lparr>matchScore := Some (score uSkillIds opp)\<rparr>) (opportunities st), st)))"

subsection \<open>Seed data\<close>

text \<open>
  The store at module load. \<open>uid k\<close> is the value of the \<open>k\<close>-th call of \<^verbatim>\<open>uid()\<close>
  (nine for the skills, three for the opportunities, two for the users) and \<open>t0\<close>,
  \<open>t1\<close>, \<open>t2\<close> are the texts of the three \<^verbatim>\<open>toISOString()\<close> calls. \<^verbatim>\<open>findSkill\<close> ends
  in a non-null assertion; every name the seed looks up is in \<^verbatim>\<open>skillNames\<close>.
\<close>

definition skillNames :: "string list" where
  "skillNames = [''JavaScript'', ''TypeScript'', ''React'', ''Node.js'', ''Express'',
                 ''PostgreSQL'', ''Prisma'', ''Docker'', ''CI/CD'']"

definition seed_skills :: "(nat \<Rightarrow> string) \<Rightarrow> Skill list" where
  "seed_skills uid =
     map (\<lambda>(k, name). \<lparr>skill_id = uid k, skill_name = name\<rparr>) (enumerate 0 skillNames)"

definition findSkill :: "Skill list \<Rightarrow> string \<Rightarrow> Skill" where
  "findSkill sk name = the (find (\<lambda>s. skill_name s = name) sk)"

definition mock_init :: "(nat \<Rightarrow> string) \<Rightarrow> string \<Rightarrow> string \<Rightarrow> string \<Rightarrow> store" where
  "mock_init uid t0 t1 t2 =
     (let sk = seed_skills uid in
      \<lparr>skills = sk,
       opportunities =
         [\<lparr>opp_id = uid 9, title = JStr ''Frontend Intern'',
           description = JStr ''Build UI with React + TS'', createdAt = t0,
           opp_skills = [findSkill sk ''React'', findSkill sk ''TypeScript''],
           matchScore = None\<rparr>,
          \<lparr>opp_id = uid 10, title = JStr ''Backend Intern'',
           description = JStr ''API with Node, Express, Prisma'', createdAt = t1,
           opp_skills = [findSkill sk ''Node.js'', findSkill sk ''Express'',
                         findSkill sk ''PostgreSQL'', findSkill sk ''Prisma''],
           matchScore = None\<rparr>,
          \<lparr>opp_id = uid 11, title = JStr ''DevOps Trainee'',
           description = JStr ''Dockerize apps and set up CI'', createdAt = t2,
           opp_skills = [findSkill sk ''Docker'', findSkill sk ''CI/CD''],
           matchScore = None\<rparr>],
       users =
         [\<lparr>user_id = uid 12, user_name = JStr ''Alice'', email = JStr ''alice@example.com'',
           user_skills = [findSkill sk ''React'', findSkill sk ''TypeScript'']\<rparr>,
          \<lparr>user_id = uid 13, user_name = JStr ''Bob'', email = JStr ''bob@example.com'',
           user_skills = [findSkill sk ''Node.js'', findSkill sk ''Express'',
                          findSkill sk ''PostgreSQL'']\<rparr>]\<rparr>)"

subsection \<open>The data-access call\<close>

text \<open>\<^verbatim>\<open>res.ok\<close>\<close>

definition ok :: "nat \<Rightarrow> bool" where
  "ok status = (200 \<le> status \<and> status \<le> 299)"

record config =
  API_URL :: string
  USE_MOCK :: bool

datatype response =
    Skills "Skill list"
  | Opps "Opportunity list"
  | Opp Opportunity
  | Users "User list"
  | UserR User
  | Json jsval

text \<open>\<^verbatim>\<open>s.split(c)\<close> for a separator of one character: never empty.\<close>

fun split :: "char \<Rightarrow> string \<Rightarrow> string list" where
  "split c [] = [[]]"
| "split c (x # xs) =
     (if x = c then [] # split c xs
      else (case split c xs of [] \<Rightarrow> [[x]] | w # ws \<Rightarrow> (x # w) # ws))"

text \<open>\<^verbatim>\<open>xs[i]\<close>: \<open>None\<close> is the \<^verbatim>\<open>undefined\<close> of an index out of range.\<close>

definition at_index :: "'a list \<Rightarrow> nat \<Rightarrow> 'a option" where
  "at_index xs i = (if i < length xs then Some (xs ! i) else None)"

text \<open>\<^verbatim>\<open>(options?.method || 'GET').toUpperCase()\<close>\<close>

definition method_of :: "platform \<Rightarrow> RequestInit option \<Rightarrow> string" where
  "method_of plat options =
     toUpperCase plat
       (case options of
          None \<Rightarrow> ''GET''
        | Some opts \<Rightarrow>
            (case init_method opts of
               None \<Rightarrow> ''GET''
             | Some m \<Rightarrow> if m = [] then ''GET'' else m))"

text \<open>\<^verbatim>\<open>options?.body ? JSON.parse(String(options.body)) : undefined\<close>\<close>

definition body_of :: "platform \<Rightarrow> RequestInit option \<Rightarrow> error + jsval" where
  "body_of plat options =
     (case options of
        None \<Rightarrow> Inr JUndefined
      | Some opts \<Rightarrow>
          (case init_body opts of
             None \<Rightarrow> Inr JUndefined
           | Some b \<Rightarrow> if b = [] then Inr JUndefined else JSON_parse plat b))"

text \<open>\<^verbatim>\<open>{ headers: { 'Content-Type': 'application/json' }, ...options }\<close>\<close>

definition fetch_init :: "RequestInit option \<Rightarrow> RequestInit" where
  "fetch_init options =
     (case options of
        None \<Rightarrow> \<lparr>init_headers = Some [(''Content-Type'', ''application/json'')],
                 init_method = None, init_body = None\<rparr>
      | Some opts \<Rightarrow>
          (case init_headers opts of
             None \<Rightarrow> opts\<lparr>init_headers := Some [(''Content-Type'', ''application/json'')]\<rparr>
           | Some h \<Rightarrow> opts))"

text \<open>
  \<^verbatim>\<open>api\<close>. In mock mode the body is parsed first, then the routes are tried in the
  order of the source; \<open>uid\<close> and \<open>now\<close> are what a creation would draw. In live mode the
  store is not touched. A user id that \<^verbatim>\<open>split\<close> does not yield is \<^verbatim>\<open>undefined\<close>,
  which no user's id equals, so \<^verbatim>\<open>getMatches\<close> returns the empty array.
\<close>

definition api ::
  "config \<Rightarrow> platform \<Rightarrow> string \<Rightarrow> string \<Rightarrow> store \<Rightarrow> string \<Rightarrow> RequestInit option
     \<Rightarrow> (error + response) \<times> store" where
  "api cfg plat uid now st path options =
     (if USE_MOCK cfg then
        (let m = method_of plat options in
         case body_of plat options of
           Inl e \<Rightarrow> (Inl e, st)
         | Inr b \<Rightarrow>
             if path = ''/api/skills'' \<and> m = ''GET'' then
               (case getSkills st of (r, st') \<Rightarrow> (Inr (Skills r), st'))
             else if path = ''/api/opportunities'' \<and> m = ''GET'' then
               (case getOpps plat st of (r, st') \<Rightarrow> (Inr (Opps r), st'))
             else if path = ''/api/opportunities'' \<and> m = ''POST'' then
               (case postOpp uid now st b of (r, st') \<Rightarrow> (map_sum id Opp r, st'))
             else if path = ''/api/users'' \<and> m = ''GET'' then
               (case getUsers st of (r, st') \<Rightarrow> (Inr (Users r), st'))
             else if path = ''/api/users'' \<and> m = ''POST'' then
               (case postUser uid st b of (r, st') \<Rightarrow> (map_sum id UserR r, st'))
             else if prefix ''/api/users/'' path \<and> suffix ''/matches'' path \<and> m = ''GET'' then
               (case at_index (split CHR ''/'' path) 3 of
                  None \<Rightarrow> (Inr (Opps []), st)
                | Some userId \<Rightarrow>
                    (case getMatches st userId of (r, st') \<Rightarrow> (Inr (Opps r), st')))
             else (Inl (Error (''Mock route not implemented: '' @ m @ '' '' @ path)), st))
      else
        (case fetch plat (API_URL cfg @ path) (fetch_init options) of
           Rejected \<Rightarrow> (Inl TypeError, st)
         | Response status text \<Rightarrow>
             if \<not> ok status then (Inl (Error text), st)
             else (map_sum id Json (JSON_parse plat text), st)))"

text \<open>
  A session of calls, each with its path, its options and what \<^verbatim>\<open>uid()\<close> and the clock
  would give it; the store is threaded through, whatever each call returns.
\<close>

record call =
  call_path :: string
  call_options :: "RequestInit option"
  call_uid :: string
  call_now :: string

definition step :: "config \<Rightarrow> platform \<Rightarrow> store \<Rightarrow> call \<Rightarrow> store" where
  "step cfg plat st c = snd (api cfg plat (call_uid c) (call_now c) st (call_path c) (call_options c))"

definition run :: "config \<Rightarrow> platform \<Rightarrow> store \<Rightarrow> call list \<Rightarrow> store" where
  "run cfg plat st cs = foldl (step cfg plat) st cs"

subsection \<open>The route table of the specification\<close>

text \<open>
  The table as the specification lists it, a method and a path each: \<^verbatim>\<open>GET /api/skills\<close>,
  \<^verbatim>\<open>GET /api/opportunities\<close>, \<^verbatim>\<open>POST /api/opportunities\<close>, \<^verbatim>\<open>GET /api/users\<close>,
  \<^verbatim>\<open>POST /api/users\<close> and \<^verbatim>\<open>GET /api/users/{id}/matches\<close>, where \<^verbatim>\<open>{id}\<close> is one
  path segment: not empty and without a slash. Methods are compared as written.
\<close>

definition spec_route_table :: "string \<Rightarrow> string \<Rightarrow> bool" where
  "spec_route_table path m =
     (m = ''GET'' \<and> path = ''/api/skills'' \<or>
      m = ''GET'' \<and> path = ''/api/opportunities'' \<or>
      m = ''POST'' \<and> path = ''/api/opportunities'' \<or>
      m = ''GET'' \<and> path = ''/api/users'' \<or>
      m = ''POST'' \<and> path = ''/api/users'' \<or>
      m = ''GET'' \<and>
        (\<exists>i. i \<noteq> [] \<and> CHR ''/'' \<notin> set i \<and> path = ''/api/users/'' @ i @ ''/matches''))"

subsection \<open>Example data\<close>

text \<open>
  A store with the catalog A, B, C, three opportunities asking for [A], [C] and [A, B],
  newest first, and one user who has A and B.
\<close>

definition ex_A :: Skill where
  "ex_A = \<lparr>skill_id = ''A'', skill_name = ''Alpha''\<rparr>"

definition ex_B :: Skill where
  "ex_B = \<lparr>skill_id = ''B'', skill_name = ''Beta''\<rparr>"

definition ex_C :: Skill where
  "ex_C = \<lparr>skill_id = ''C'', skill_name = ''Gamma''\<rparr>"

definition ex_opp :: "string \<Rightarrow> string \<Rightarrow> Skill list \<Rightarrow> Opportunity" where
  "ex_opp i t ss =
     \<lparr>opp_id = i, title = JStr ''Intern'', description = JStr ''Work'', createdAt = t,
      opp_skills = ss, matchScore = None\<rparr>"

definition ex_user :: User where
  "ex_user = \<lparr>user_id = ''u1'', user_name = JStr ''Alice'', email = JStr ''alice@example.com'',
              user_skills = [ex_A, ex_B]\<rparr>"

definition ex_store :: store where
  "ex_store =
     \<lparr>skills = [ex_A, ex_B, ex_C],
      opportunities =
        [ex_opp ''o1'' ''2024-01-03T00:00:00.000Z'' [ex_A],
         ex_opp ''o2'' ''2024-01-02T00:00:00.000Z'' [ex_C],
         ex_opp ''o3'' ''2024-01-01T00:00:00.000Z'' [ex_A, ex_B]],
      users = [ex_user]\<rparr>"

definition ex_body :: jsval where
  "ex_body = JObj [(''title'', JStr ''T''), (''description'', JStr ''D''),
                   (''name'', JStr ''N''), (''email'', JStr ''E''),
                   (''skillIds'', JArr [JStr ''C'', JStr ''zz'', JStr ''A''])]"

definition ex_new_opp :: Opportunity where
  "ex_new_opp = \<lparr>opp_id = ''n4'', title = JStr ''T'', description = JStr ''D'',
                 createdAt = ''2024-01-04T00:00:00.000Z'', opp_skills = [ex_A, ex_C],
                 matchScore = None\<rparr>"

definition ex_new_user :: User where
  "ex_new_user = \<lparr>user_id = ''n4'', user_name = JStr ''N'', email = JStr ''E'',
                  user_skills = [ex_A, ex_C]\<rparr>"

definition ex_store1 :: store where
  "ex_store1 = ex_store\<lparr>opportunities := ex_new_opp # opportunities ex_store\<rparr>"

definition ex_new_opp2 :: Opportunity where
  "ex_new_opp2 = \<lparr>opp_id = ''n5'', title = JStr ''T'', description = JStr ''D'',
                  createdAt = ''2024-01-05T00:00:00.000Z'', opp_skills = [ex_A, ex_C],
                  matchScore = None\<rparr>"

definition ex_store2 :: store where
  "ex_store2 = ex_store1\<lparr>opportunities := ex_new_opp2 # opportunities ex_store1\<rparr>"

text \<open>The second creation again, with the clock set back to the day before the first.\<close>

definition ex_back_opp :: Opportunity where
  "ex_back_opp = \<lparr>opp_id = ''n5'', title = JStr ''T'', description = JStr ''D'',
                  createdAt = ''2024-01-03T12:00:00.000Z'', opp_skills = [ex_A, ex_C],
                  matchScore = None\<rparr>"

definition ex_store_back :: store where
  "ex_store_back = ex_store1\<lparr>opportunities := ex_back_opp # opportunities ex_store1\<rparr>"

text \<open>A creation for which \<^verbatim>\<open>uid()\<close> draws the id of a stored opportunity.\<close>

definition ex_dup_opp :: Opportunity where
  "ex_dup_opp = \<lparr>opp_id = ''o1'', title = JStr ''T'', description = JStr ''D'',
                 createdAt = ''2024-01-04T00:00:00.000Z'', opp_skills = [ex_A, ex_C],
                 matchScore = None\<rparr>"

definition ex_dup_user :: User where
  "ex_dup_user = \<lparr>user_id = ''u1'', user_name = JStr ''N'', email = JStr ''E'',
                  user_skills = [ex_A, ex_C]\<rparr>"

text \<open>
  A platform for the examples. The parser agrees with \<^verbatim>\<open>JSON.parse\<close> on the three
  texts the examples send: an empty object, \<^verbatim>\<open>null\<close>, and an unclosed brace, which is
  a syntax error. The network answers one path with 200 and every other with 404. The
  upper-casing is that of the letters a to z, which is \<^verbatim>\<open>toUpperCase\<close> on the ASCII
  methods of the examples. The collation is the order of the code units, which is
  \<^verbatim>\<open>localeCompare\<close> on the timestamps of the examples: years of four digits in the
  layout of \<^verbatim>\<open>toISOString()\<close>.
\<close>

definition ex_toUpperCase :: "string \<Rightarrow> string" where
  "ex_toUpperCase s =
     map (\<lambda>c. case map_of (zip ''abcdefghijklmnopqrstuvwxyz'' ''ABCDEFGHIJKLMNOPQRSTUVWXYZ'') c of
                 None \<Rightarrow> c
               | Some u \<Rightarrow> u) s"

definition ex_localeCompare :: "string \<Rightarrow> string \<Rightarrow> int" where
  "ex_localeCompare a b = (if a < b then - 1 else if b < a then 1 else 0)"

definition ex_parse :: "string \<Rightarrow> error + jsval" where
  "ex_parse s =
     (if s = ''{}'' then Inr (JObj [])
      else if s = ''null'' then Inr JNull
      else Inl SyntaxError)"

definition ex_fetch :: "string \<Rightarrow> RequestInit \<Rightarrow> fetch_result" where
  "ex_fetch url init =
     (if url = ''http://localhost:5000/api/ping'' then Response 200 ''{}''
      else Response 404 ''Not Found'')"

definition ex_plat :: platform where
  "ex_plat = \<lparr>JSON_parse = ex_parse, fetch = ex_fetch, toUpperCase = ex_toUpperCase,
               localeCompare = ex_localeCompare\<rparr>"

definition ex_mock :: config where
  "ex_mock = \<lparr>API_URL = ''http://localhost:5000'', USE_MOCK = True\<rparr>"

definition ex_live :: config where
  "ex_live = \<lparr>API_URL = ''http://localhost:5000'', USE_MOCK = False\<rparr>"

definition ex_post :: "string \<Rightarrow> RequestInit option" where
  "ex_post b = Some \<lparr>init_headers = None, init_method = Some ''POST'', init_body = Some b\<rparr>"

definition ex_get_lower :: "RequestInit option" where
  "ex_get_lower = Some \<lparr>init_headers = None, init_method = Some ''get'', init_body = None\<rparr>"

text \<open>
  A session on the seed store: the matches of the first seed user, a creation, a listing.
\<close>

definition ex_uid :: "nat \<Rightarrow> string" where
  "ex_uid k =
     (if k < 14
      then [''s0'', ''s1'', ''s2'', ''s3'', ''s4'', ''s5'', ''s6'', ''s7'', ''s8'',
            ''o9'', ''o10'', ''o11'', ''u12'', ''u13''] ! k
      else ''none'')"

definition ex_seed :: store where
  "ex_seed = mock_init ex_uid ''2024-01-03T01:00:00.000Z'' ''2024-01-03T00:45:00.000Z''
               ''2024-01-03T00:00:00.000Z''"

definition ex_calls :: "call list" where
  "ex_calls =
     [\<lparr>call_path = ''/api/users/u12/matches'', call_options = None,
       call_uid = ''n14'', call_now = ''2024-01-04T00:00:00.000Z''\<rparr>,
      \<lparr>call_path = ''/api/opportunities'', call_options = ex_post ''{}'',
       call_uid = ''n15'', call_now = ''2024-01-04T00:00:01.000Z''\<rparr>,
      \<lparr>call_path = ''/api/opportunities'', call_options = None,
       call_uid = ''n16'', call_now = ''2024-01-04T00:00:02.000Z''\<rparr>]"

lemmas ex_defs = ex_A_def ex_B_def ex_C_def ex_opp_def ex_user_def ex_store_def
  ex_body_def ex_new_opp_def ex_new_user_def ex_store1_def ex_new_opp2_def ex_store2_def
  ex_back_opp_def ex_store_back_def ex_dup_opp_def ex_dup_user_def
  ex_parse_def ex_fetch_def ex_plat_def ex_mock_def ex_live_def ex_post_def ex_get_lower_def
  ex_toUpperCase_def ex_localeCompare_def

lemmas seed_defs = ex_seed_def ex_uid_def mock_init_def seed_skills_def skillNames_def
  findSkill_def

section \<open>Properties\<close>

subsection \<open>Auxiliary facts\<close>

lemma foldl_count:
  "foldl (\<lambda>acc s. acc + (if P s then 1 else 0)) (a::int) xs = a + int (length (filter P xs))"
  by (induction xs arbitrary: a) simp_all

lemma score_count:
  "score ids opp = int (length (filter (\<lambda>s. skill_id s \<in> ids) (opp_skills opp)))"
  unfolding score_def by (simp add: foldl_count)

lemma getMatches_store: "snd (getMatches st userId) = st"
  by (simp add: getMatches_def Let_def split: option.splits)

lemma find_None_ids:
  "(find (\<lambda>x. user_id x = userId) us = None) = (userId \<notin> user_id ` set us)"
  by (induction us) auto

lemma filter_skills_total:
  "(\<And>s. s \<in> set ss \<Longrightarrow> p s = Inr (q s)) \<Longrightarrow> filter_skills p ss = Inr (filter q ss)"
  by (induction ss) simp_all

lemma chosen_array:
  "opt_prop b ''skillIds'' = JArr vs \<Longrightarrow>
     chosen st b = Inr (filter (\<lambda>s. JStr (skill_id s) \<in> set vs) (skills st))"
  unfolding chosen_def by (rule filter_skills_total) (simp add: or_empty_def)

lemma chosen_falsy:
  assumes "\<not> truthy (opt_prop b ''skillIds'')"
  shows "chosen st b = Inr []"
proof -
  have "chosen st b = Inr (filter (\<lambda>s. False) (skills st))"
    unfolding chosen_def using assms by (intro filter_skills_total) (simp add: or_empty_def)
  then show ?thesis by simp
qed

lemma postOpp_success:
  "postOpp uid now st b = (Inr opp, st') \<Longrightarrow>
     opp_id opp = uid \<and> createdAt opp = now \<and> matchScore opp = None \<and>
     get_prop b ''title'' = Inr (title opp) \<and>
     get_prop b ''description'' = Inr (description opp) \<and>
     chosen st b = Inr (opp_skills opp) \<and>
     st' = st\<lparr>opportunities := opp # opportunities st\<rparr>"
  by (auto simp: postOpp_def Let_def split: sum.splits)

lemma postOpp_failure: "postOpp uid now st b = (Inl e, st') \<Longrightarrow> st' = st"
  by (auto simp: postOpp_def Let_def split: sum.splits)

lemma postUser_success:
  "postUser uid st b = (Inr usr, st') \<Longrightarrow>
     user_id usr = uid \<and>
     get_prop b ''name'' = Inr (user_name usr) \<and>
     get_prop b ''email'' = Inr (email usr) \<and>
     chosen st b = Inr (user_skills usr) \<and>
     st' = st\<lparr>users := users st @ [usr]\<rparr>"
  by (auto simp: postUser_def Let_def split: sum.splits)

lemma postUser_failure: "postUser uid st b = (Inl e, st') \<Longrightarrow> st' = st"
  by (auto simp: postUser_def Let_def split: sum.splits)

lemma postOpp_object:
  "chosen st (JObj kvs) = Inr ch \<Longrightarrow>
   postOpp uid now st (JObj kvs) =
     (let opp = \<lparr>opp_id = uid, title = opt_prop (JObj kvs) ''title'',
                 description = opt_prop (JObj kvs) ''description'', createdAt = now,
                 opp_skills = ch, matchScore = None\<rparr>
      in (Inr opp, st\<lparr>opportunities := opp # opportunities st\<rparr>))"
  by (simp add: postOpp_def)

lemma postUser_object:
  "chosen st (JObj kvs) = Inr ch \<Longrightarrow>
   postUser uid st (JObj kvs) =
     (let usr = \<lparr>user_id = uid, user_name = opt_prop (JObj kvs) ''name'',
                 email = opt_prop (JObj kvs) ''email'', user_skills = ch\<rparr>
      in (Inr usr, st\<lparr>users := users st @ [usr]\<rparr>))"
  by (simp add: postUser_def)

subsection \<open>Matching\<close>

text \<open>
  C1. When \<open>userId\<close> is the id of a user (\<^verbatim>\<open>find\<close> returns one), \<^verbatim>\<open>getMatches\<close> returns
  the stored opportunities, one entry each, in the order of the store, each with
  \<^verbatim>\<open>matchScore\<close> set to the number of its skills whose id is among the ids of the user's
  skills. Nothing is filtered out, so an opportunity that scores 0 is in the result.
  The witness is the example of the specification: a user with A and B and the
  opportunities [A], [C], [A, B] score 1, 0, 2 in that order.
\<close>

theorem getMatches_scores:
  assumes "find (\<lambda>x. user_id x = userId) (users st) = Some u"
  shows "getMatches st userId =
           (map (\<lambda>opp. opp\<lparr>matchScore :=
                   Some (int (length (filter (\<lambda>s. skill_id s \<in> skill_id ` set (user_skills u))
                                       (opp_skills opp))))\<rparr>)
                (opportunities st), st)"
  using assms by (simp add: getMatches_def score_count)

theorem getMatches_scores_witness:
  "find (\<lambda>x. user_id x = ''u1'') (users ex_store) = Some ex_user \<and>
   map matchScore (fst (getMatches ex_store ''u1'')) = [Some 1, Some 0, Some 2] \<and>
   map opp_id (fst (getMatches ex_store ''u1'')) = [''o1'', ''o2'', ''o3'']"
proof -
  have h: "find (\<lambda>x. user_id x = ''u1'') (users ex_store) = Some ex_user"
    by (simp add: ex_defs)
  show ?thesis
    using h getMatches_scores [OF h] by (simp add: ex_defs)
qed

text \<open>
  C2. When no user of the store has the id \<open>userId\<close>, \<^verbatim>\<open>getMatches\<close> returns the empty
  array; it does not throw, and the store is as before.
\<close>

theorem getMatches_unknown_user:
  assumes "\<forall>u \<in> set (users st). user_id u \<noteq> userId"
  shows "getMatches st userId = ([], st)"
proof -
  from assms have "find (\<lambda>x. user_id x = userId) (users st) = None"
    by (auto simp: find_None_ids)
  then show ?thesis by (simp add: getMatches_def)
qed

theorem getMatches_unknown_user_witness:
  "''unknown-id'' \<notin> user_id ` set (users ex_store) \<and>
   getMatches ex_store ''unknown-id'' = ([], ex_store)"
proof -
  have h: "\<forall>u \<in> set (users ex_store). user_id u \<noteq> ''unknown-id''"
    by (simp add: ex_defs)
  show ?thesis
    using h getMatches_unknown_user [OF h] by auto
qed

subsection \<open>Creation\<close>

text \<open>
  C3. When the body is an object whose \<^verbatim>\<open>skillIds\<close> is an array of strings, \<^verbatim>\<open>postOpp\<close>
  and \<^verbatim>\<open>postUser\<close> succeed, and the skills of the created record are the catalog
  filtered to the skills whose id is in the array: in catalog order whatever the order of
  the array, with ids that name no skill dropped. With an empty array the record is
  created with no skills.
\<close>

theorem create_skills_in_catalog_order:
  assumes "map_of kvs ''skillIds'' = Some (JArr (map JStr skillIds))"
  shows "(\<exists>opp st'. postOpp uid now st (JObj kvs) = (Inr opp, st') \<and>
            opp_skills opp = filter (\<lambda>s. skill_id s \<in> set skillIds) (skills st) \<and>
            (skillIds = [] \<longrightarrow> opp_skills opp = [])) \<and>
         (\<exists>usr st'. postUser uid st (JObj kvs) = (Inr usr, st') \<and>
            user_skills usr = filter (\<lambda>s. skill_id s \<in> set skillIds) (skills st) \<and>
            (skillIds = [] \<longrightarrow> user_skills usr = []))"
proof -
  have mem: "\<And>k. (JStr k \<in> JStr ` set skillIds) = (k \<in> set skillIds)"
    by auto
  from assms have "opt_prop (JObj kvs) ''skillIds'' = JArr (map JStr skillIds)"
    by simp
  then have ch: "chosen st (JObj kvs) = Inr (filter (\<lambda>s. skill_id s \<in> set skillIds) (skills st))"
    by (simp add: chosen_array mem)
  show ?thesis
    by (simp add: postOpp_object [OF ch] postUser_object [OF ch] Let_def)
qed

theorem create_skills_in_catalog_order_witness:
  "map_of [(''title'', JStr ''T''), (''skillIds'', JArr (map JStr [''C'', ''zz'', ''A'']))] ''skillIds''
     = Some (JArr (map JStr [''C'', ''zz'', ''A''])) \<and>
   (\<exists>opp st'. postOpp ''n4'' ''2024-01-04T00:00:00.000Z'' ex_store
        (JObj [(''title'', JStr ''T''), (''skillIds'', JArr (map JStr [''C'', ''zz'', ''A'']))])
        = (Inr opp, st') \<and> opp_skills opp = [ex_A, ex_C]) \<and>
   (\<exists>usr st'. postUser ''n4'' ex_store
        (JObj [(''title'', JStr ''T''), (''skillIds'', JArr (map JStr [''C'', ''zz'', ''A'']))])
        = (Inr usr, st') \<and> user_skills usr = [ex_A, ex_C])"
proof -
  have h: "map_of [(''title'', JStr ''T''), (''skillIds'', JArr (map JStr [''C'', ''zz'', ''A'']))]
             ''skillIds'' = Some (JArr (map JStr [''C'', ''zz'', ''A'']))"
    by simp
  have f: "filter (\<lambda>s. skill_id s \<in> set [''C'', ''zz'', ''A'']) (skills ex_store) = [ex_A, ex_C]"
    by (simp add: ex_defs)
  show ?thesis
    using h create_skills_in_catalog_order
      [OF h, of "''n4''" "''2024-01-04T00:00:00.000Z''" ex_store]
    unfolding f by blast
qed

text \<open>
  C5, as first stated: \<^verbatim>\<open>postOpp\<close> assigns a fresh id. The id is whatever \<^verbatim>\<open>uid()\<close>
  returns, and nothing compares it with the ids in the store: when the draw is the id
  of a stored record (here \<^verbatim>\<open>o1\<close>, and \<^verbatim>\<open>u1\<close> for a user), the new record carries that
  id and the collection holds it twice.
\<close>

theorem create_fresh_id_counterexample:
  "postOpp ''o1'' ''2024-01-04T00:00:00.000Z'' ex_store ex_body =
     (Inr ex_dup_opp, ex_store\<lparr>opportunities := ex_dup_opp # opportunities ex_store\<rparr>) \<and>
   opp_id ex_dup_opp \<in> opp_id ` set (opportunities ex_store) \<and>
   map opp_id (ex_dup_opp # opportunities ex_store) = [''o1'', ''o1'', ''o2'', ''o3''] \<and>
   postUser ''u1'' ex_store ex_body =
     (Inr ex_dup_user, ex_store\<lparr>users := users ex_store @ [ex_dup_user]\<rparr>) \<and>
   map user_id (users ex_store @ [ex_dup_user]) = [''u1'', ''u1'']"
  by (simp add: postOpp_def postUser_def chosen_def or_empty_def Let_def ex_defs)

text \<open>
  C5, amended. A call of \<^verbatim>\<open>postOpp\<close> that returns a record gives it the id that
  \<^verbatim>\<open>uid()\<close> returned, unchecked, and the timestamp of the call, copies title and
  description from the body, and returns the very record it puts at the front of the
  opportunities; the ids of the collection are distinct afterwards exactly when they
  were before and the drawn id is not among them. A call of \<^verbatim>\<open>postUser\<close> that returns
  a record returns the record it puts at the end of the users, with the same rule for
  its id. Neither touches the other two collections. Both return a record whenever the
  body is an object whose \<^verbatim>\<open>skillIds\<close> is an array.
\<close>

theorem create_inserts_and_returns:
  "(postOpp uid now st b = (Inr opp, st') \<longrightarrow>
      opp_id opp = uid \<and> createdAt opp = now \<and>
      get_prop b ''title'' = Inr (title opp) \<and>
      get_prop b ''description'' = Inr (description opp) \<and>
      opportunities st' = opp # opportunities st \<and>
      users st' = users st \<and> skills st' = skills st \<and>
      distinct (map opp_id (opportunities st')) =
        (uid \<notin> opp_id ` set (opportunities st) \<and> distinct (map opp_id (opportunities st)))) \<and>
   (postUser uid st b = (Inr usr, st'') \<longrightarrow>
      user_id usr = uid \<and>
      get_prop b ''name'' = Inr (user_name usr) \<and>
      get_prop b ''email'' = Inr (email usr) \<and>
      users st'' = users st @ [usr] \<and>
      opportunities st'' = opportunities st \<and> skills st'' = skills st \<and>
      distinct (map user_id (users st'')) =
        (uid \<notin> user_id ` set (users st) \<and> distinct (map user_id (users st)))) \<and>
   (map_of kvs ''skillIds'' = Some (JArr vs) \<longrightarrow>
      (\<exists>opp' s'. postOpp uid now st (JObj kvs) = (Inr opp', s')) \<and>
      (\<exists>usr' s'. postUser uid st (JObj kvs) = (Inr usr', s')))"
  (is "(?created \<longrightarrow> ?opp_ok) \<and> (?registered \<longrightarrow> ?user_ok) \<and> (?array \<longrightarrow> ?succeeds)")
proof (intro conjI)
  show "?created \<longrightarrow> ?opp_ok"
  proof (rule impI)
    assume ?created
    from postOpp_success [OF this] show ?opp_ok by auto
  qed
next
  show "?registered \<longrightarrow> ?user_ok"
  proof (rule impI)
    assume ?registered
    from postUser_success [OF this] show ?user_ok by auto
  qed
next
  show "?array \<longrightarrow> ?succeeds"
  proof (rule impI)
    assume ?array
    then have "opt_prop (JObj kvs) ''skillIds'' = JArr vs"
      by simp
    from chosen_array [OF this, of st] show ?succeeds
      by (simp add: postOpp_object postUser_object Let_def)
  qed
qed

lemma ex_postOpp:
  "postOpp ''n4'' ''2024-01-04T00:00:00.000Z'' ex_store ex_body =
     (Inr ex_new_opp, ex_store\<lparr>opportunities := ex_new_opp # opportunities ex_store\<rparr>)"
  by (simp add: postOpp_def chosen_def or_empty_def Let_def ex_defs)

lemma ex_postUser:
  "postUser ''n4'' ex_store ex_body =
     (Inr ex_new_user, ex_store\<lparr>users := users ex_store @ [ex_new_user]\<rparr>)"
  by (simp add: postUser_def chosen_def or_empty_def Let_def ex_defs)

theorem create_inserts_and_returns_witness:
  "postOpp ''n4'' ''2024-01-04T00:00:00.000Z'' ex_store ex_body =
     (Inr ex_new_opp, ex_store\<lparr>opportunities := ex_new_opp # opportunities ex_store\<rparr>) \<and>
   opp_id ex_new_opp = ''n4'' \<and> createdAt ex_new_opp = ''2024-01-04T00:00:00.000Z'' \<and>
   distinct (map opp_id (ex_new_opp # opportunities ex_store)) \<and>
   postUser ''n4'' ex_store ex_body =
     (Inr ex_new_user, ex_store\<lparr>users := users ex_store @ [ex_new_user]\<rparr>) \<and>
   user_id ex_new_user = ''n4'' \<and>
   distinct (map user_id (users ex_store @ [ex_new_user]))"
proof -
  have fresh: "''n4'' \<notin> opp_id ` set (opportunities ex_store) \<and>
               distinct (map opp_id (opportunities ex_store)) \<and>
               ''n4'' \<notin> user_id ` set (users ex_store) \<and>
               distinct (map user_id (users ex_store))"
    by (simp add: ex_defs)
  show ?thesis
    using fresh ex_postOpp ex_postUser
      create_inserts_and_returns
        [of "''n4''" "''2024-01-04T00:00:00.000Z''" ex_store ex_body ex_new_opp
            "ex_store\<lparr>opportunities := ex_new_opp # opportunities ex_store\<rparr>"
            ex_new_user "ex_store\<lparr>users := users ex_store @ [ex_new_user]\<rparr>"]
    by simp
qed

text \<open>
  C10. The skill selection reads \<^verbatim>\<open>body?.skillIds\<close> and so accepts a missing body, but
  the next statement reads \<^verbatim>\<open>body.title\<close> (\<^verbatim>\<open>body.name\<close> in \<^verbatim>\<open>postUser\<close>) without the
  guard: with the body \<^verbatim>\<open>undefined\<close> or \<^verbatim>\<open>null\<close> both calls throw a \<^verbatim>\<open>TypeError\<close> and
  create nothing.
\<close>

theorem create_without_body_throws:
  "postOpp uid now st JUndefined = (Inl TypeError, st) \<and>
   postOpp uid now st JNull = (Inl TypeError, st) \<and>
   postUser uid st JUndefined = (Inl TypeError, st) \<and>
   postUser uid st JNull = (Inl TypeError, st)"
  by (simp add: postOpp_def postUser_def chosen_falsy)

text \<open>
  The rest of that expectation holds: an object body whose \<^verbatim>\<open>skillIds\<close> is absent or
  \<^verbatim>\<open>null\<close> creates a record with no skills.
\<close>

lemma create_without_skillIds:
  assumes "map_of kvs ''skillIds'' = None \<or> map_of kvs ''skillIds'' = Some JNull"
  shows "(\<exists>opp st'. postOpp uid now st (JObj kvs) = (Inr opp, st') \<and> opp_skills opp = []) \<and>
         (\<exists>usr st'. postUser uid st (JObj kvs) = (Inr usr, st') \<and> user_skills usr = [])"
proof -
  from assms have "\<not> truthy (opt_prop (JObj kvs) ''skillIds'')"
    by auto
  then have ch: "chosen st (JObj kvs) = Inr []"
    by (rule chosen_falsy)
  show ?thesis
    by (simp add: postOpp_object [OF ch] postUser_object [OF ch] Let_def)
qed

subsection \<open>Listing\<close>

lemma set_insort_by: "set (insort_by cmp x ys) = insert x (set ys)"
  by (induction ys) auto

lemma mset_insort_by: "mset (insort_by cmp x ys) = add_mset x (mset ys)"
  by (induction ys) auto

lemma mset_sort_by: "mset (sort_by cmp xs) = mset xs"
  unfolding sort_by_def by (induction xs) (simp_all add: mset_insort_by)

text \<open>Under a comparator that is total and transitive, insertion keeps a list ordered.\<close>

lemma sorted_insort_by:
  assumes total: "\<And>a b. cmp a b \<le> 0 \<or> cmp b a \<le> 0"
    and trans: "\<And>a b c. cmp a b \<le> 0 \<Longrightarrow> cmp b c \<le> 0 \<Longrightarrow> cmp a c \<le> 0"
    and srt: "sorted_wrt (\<lambda>a b. cmp a b \<le> 0) ys"
  shows "sorted_wrt (\<lambda>a b. cmp a b \<le> 0) (insort_by cmp x ys)"
  using srt
proof (induction ys)
  case Nil
  show ?case by simp
next
  case (Cons y ys)
  show ?case
  proof (cases "cmp x y \<le> 0")
    case True
    with Cons.prems show ?thesis by (auto intro: trans)
  next
    case False
    with total [of x y] have "cmp y x \<le> 0" by simp
    with Cons False show ?thesis by (auto simp: set_insort_by)
  qed
qed

lemma sorted_sort_by:
  assumes total: "\<And>a b. cmp a b \<le> 0 \<or> cmp b a \<le> 0"
    and trans: "\<And>a b c. cmp a b \<le> 0 \<Longrightarrow> cmp b c \<le> 0 \<Longrightarrow> cmp a c \<le> 0"
  shows "sorted_wrt (\<lambda>a b. cmp a b \<le> 0) (sort_by cmp xs)"
  unfolding sort_by_def
  by (induction xs) (simp_all add: sorted_insort_by [of cmp, OF total trans])

text \<open>Elements that the comparator does not separate are never moved past each other.\<close>

lemma filter_insort_by:
  assumes tie: "\<And>y. P x \<Longrightarrow> P y \<Longrightarrow> cmp x y \<le> 0"
  shows "filter P (insort_by cmp x ys) = filter P (x # ys)"
proof (induction ys)
  case Nil
  show ?case by simp
next
  case (Cons y ys)
  show ?case
  proof (cases "cmp x y \<le> 0")
    case True
    then show ?thesis by simp
  next
    case False
    with tie [of y] have "\<not> (P x \<and> P y)" by auto
    with Cons False show ?thesis by auto
  qed
qed

lemma filter_sort_by:
  assumes tie: "\<And>x y. P x \<Longrightarrow> P y \<Longrightarrow> cmp x y \<le> 0"
  shows "filter P (sort_by cmp xs) = filter P xs"
  unfolding sort_by_def by (induction xs) (simp_all add: filter_insort_by [of P _ cmp, OF tie])

lemma sort_by_newest:
  assumes newest: "\<And>y. y \<in> set xs \<Longrightarrow> cmp x y \<le> 0"
  shows "sort_by cmp (x # xs) = x # sort_by cmp xs"
proof (cases "sort_by cmp xs")
  case Nil
  then show ?thesis by (simp add: sort_by_def)
next
  case (Cons y ys)
  have "set (sort_by cmp xs) = set xs"
    by (metis mset_sort_by set_mset_mset)
  with Cons have "y \<in> set xs" by auto
  then have "cmp x y \<le> 0" by (rule newest)
  with Cons show ?thesis by (simp add: sort_by_def)
qed

lemma getOpps_after_postOpp:
  assumes "postOpp uid now st b = (Inr opp, st')"
    and "\<And>z. z \<in> set (opportunities st) \<Longrightarrow> localeCompare plat (createdAt z) now \<le> 0"
  shows "fst (getOpps plat st') = opp # fst (getOpps plat st)"
proof -
  from postOpp_success [OF assms(1)]
  have c: "createdAt opp = now" and s: "opportunities st' = opp # opportunities st"
    by auto
  have "sort_by (\<lambda>a b. localeCompare plat (createdAt b) (createdAt a)) (opp # opportunities st) =
          opp # sort_by (\<lambda>a b. localeCompare plat (createdAt b) (createdAt a)) (opportunities st)"
    by (rule sort_by_newest) (simp add: c assms(2))
  then show ?thesis by (simp add: getOpps_def s)
qed

lemma ex_collation:
  "(localeCompare ex_plat a b \<le> 0) = (a \<le> b)"
  by (auto simp: ex_plat_def ex_localeCompare_def)

lemma ex_postOpp2:
  "postOpp ''n5'' ''2024-01-05T00:00:00.000Z'' ex_store1 ex_body = (Inr ex_new_opp2, ex_store2)"
  by (simp add: postOpp_def chosen_def or_empty_def Let_def ex_defs)

lemma ex_postOpp_back:
  "postOpp ''n5'' ''2024-01-03T12:00:00.000Z'' ex_store1 ex_body = (Inr ex_back_opp, ex_store_back)"
  by (simp add: postOpp_def chosen_def or_empty_def Let_def ex_defs)

text \<open>
  C4, as first stated: after two creations in sequence the most recently created
  opportunity is first in the listing. The listing is ordered by the timestamps, not by
  the order of creation: when the clock is set back between the two calls (the second
  creation half a day before the first), the second record is at the front of the
  store and second in the listing.
\<close>

theorem getOpps_newest_first_counterexample:
  "postOpp ''n4'' ''2024-01-04T00:00:00.000Z'' ex_store ex_body = (Inr ex_new_opp, ex_store1) \<and>
   postOpp ''n5'' ''2024-01-03T12:00:00.000Z'' ex_store1 ex_body = (Inr ex_back_opp, ex_store_back) \<and>
   map opp_id (opportunities ex_store_back) = [''n5'', ''n4'', ''o1'', ''o2'', ''o3''] \<and>
   map opp_id (fst (getOpps ex_plat ex_store_back)) = [''n4'', ''n5'', ''o1'', ''o2'', ''o3'']"
proof -
  have p1: "postOpp ''n4'' ''2024-01-04T00:00:00.000Z'' ex_store ex_body = (Inr ex_new_opp, ex_store1)"
    using ex_postOpp by (simp add: ex_store1_def)
  have s: "map opp_id (opportunities ex_store_back) = [''n5'', ''n4'', ''o1'', ''o2'', ''o3'']"
    by (simp add: ex_defs)
  have l: "map opp_id (fst (getOpps ex_plat ex_store_back)) = [''n4'', ''n5'', ''o1'', ''o2'', ''o3'']"
    by (simp add: getOpps_def sort_by_def ex_defs)
  from p1 ex_postOpp_back s l show ?thesis by simp
qed

text \<open>
  C4, amended. With a collation that is a consistent comparison (total and transitive,
  as \<^verbatim>\<open>localeCompare\<close> is), \<^verbatim>\<open>getOpps\<close> returns every stored opportunity, each as often
  as it is stored, ordered by \<^verbatim>\<open>createdAt\<close> descending: no entry's timestamp collates
  after that of an entry before it. Opportunities with the same timestamp keep the order
  they have in the stored collection. After two creations in sequence the second record
  is first in the listing, in front of the listing from before it, whenever no stored
  timestamp collates after its own, that is, when the clock has not gone back.
\<close>

theorem getOpps_sorted_newest_first:
  assumes total: "\<forall>a b. localeCompare plat a b \<le> 0 \<or> localeCompare plat b a \<le> 0"
    and trans: "\<forall>a b c. localeCompare plat a b \<le> 0 \<and> localeCompare plat b c \<le> 0
                  \<longrightarrow> localeCompare plat a c \<le> 0"
  shows
  "mset (fst (getOpps plat st)) = mset (opportunities st) \<and>
   sorted_wrt (\<lambda>a b. localeCompare plat (createdAt b) (createdAt a) \<le> 0) (fst (getOpps plat st)) \<and>
   (\<forall>t. filter (\<lambda>z. createdAt z = t) (fst (getOpps plat st)) =
          filter (\<lambda>z. createdAt z = t) (opportunities st)) \<and>
   (postOpp uid1 now1 st b1 = (Inr opp1, st1) \<and>
    postOpp uid2 now2 st1 b2 = (Inr opp2, st2) \<and>
    (\<forall>z \<in> set (opportunities st1). localeCompare plat (createdAt z) now2 \<le> 0)
      \<longrightarrow> fst (getOpps plat st2) = opp2 # fst (getOpps plat st1))"
  (is "?all \<and> ?sorted \<and> ?stable \<and> (?two \<longrightarrow> ?newest)")
proof (intro conjI)
  show ?all
    by (simp add: getOpps_def mset_sort_by)
  show ?sorted
    unfolding getOpps_def fst_conv
    by (rule sorted_sort_by) (use total trans in blast)+
  show ?stable
  proof
    fix t
    have "localeCompare plat t t \<le> 0"
      using total by blast
    then show "filter (\<lambda>z. createdAt z = t) (fst (getOpps plat st)) =
                 filter (\<lambda>z. createdAt z = t) (opportunities st)"
      unfolding getOpps_def fst_conv by (intro filter_sort_by) simp
  qed
  show "?two \<longrightarrow> ?newest"
  proof (rule impI)
    assume two: ?two
    then have p2: "postOpp uid2 now2 st1 b2 = (Inr opp2, st2)"
      and old: "\<And>z. z \<in> set (opportunities st1) \<Longrightarrow> localeCompare plat (createdAt z) now2 \<le> 0"
      by auto
    from p2 old show ?newest
      by (rule getOpps_after_postOpp)
  qed
qed

theorem getOpps_sorted_newest_first_witness:
  "postOpp ''n4'' ''2024-01-04T00:00:00.000Z'' ex_store ex_body = (Inr ex_new_opp, ex_store1) \<and>
   postOpp ''n5'' ''2024-01-05T00:00:00.000Z'' ex_store1 ex_body = (Inr ex_new_opp2, ex_store2) \<and>
   fst (getOpps ex_plat ex_store2) = ex_new_opp2 # fst (getOpps ex_plat ex_store1) \<and>
   map opp_id (fst (getOpps ex_plat ex_store1)) = [''n4'', ''o1'', ''o2'', ''o3''] \<and>
   sorted_wrt (\<lambda>a b. createdAt b \<le> createdAt a) (fst (getOpps ex_plat ex_store2))"
proof -
  have total: "\<forall>a b. localeCompare ex_plat a b \<le> 0 \<or> localeCompare ex_plat b a \<le> 0"
    by (auto simp: ex_collation)
  have trans: "\<forall>a b c. localeCompare ex_plat a b \<le> 0 \<and> localeCompare ex_plat b c \<le> 0
                 \<longrightarrow> localeCompare ex_plat a c \<le> 0"
    by (auto simp: ex_collation)
  have p1: "postOpp ''n4'' ''2024-01-04T00:00:00.000Z'' ex_store ex_body = (Inr ex_new_opp, ex_store1)"
    using ex_postOpp by (simp add: ex_store1_def)
  have old: "\<forall>z \<in> set (opportunities ex_store1).
               localeCompare ex_plat (createdAt z) ''2024-01-05T00:00:00.000Z'' \<le> 0"
    by (simp add: ex_collation) (simp add: ex_defs)
  have l: "map opp_id (fst (getOpps ex_plat ex_store1)) = [''n4'', ''o1'', ''o2'', ''o3'']"
    by (simp add: getOpps_def sort_by_def ex_defs)
  show ?thesis
    using p1 ex_postOpp2 old l
      getOpps_sorted_newest_first
        [OF total trans, of ex_store "''n4''" "''2024-01-04T00:00:00.000Z''" ex_body ex_new_opp
            ex_store1 "''n5''" "''2024-01-05T00:00:00.000Z''" ex_body ex_new_opp2 ex_store2]
      getOpps_sorted_newest_first [OF total trans, of ex_store2]
    by (simp add: ex_collation)
qed

subsection \<open>The data-access call\<close>

lemma filter_skills_error:
  "filter_skills p ss = Inl e \<Longrightarrow> \<exists>s \<in> set ss. p s = Inl e"
  by (induction ss) (auto split: sum.splits)

lemma js_includes_error: "js_includes v k = Inl e \<Longrightarrow> e = TypeError"
  by (cases v) auto

lemma get_prop_error: "get_prop v k = Inl e \<Longrightarrow> e = TypeError"
  by (cases v) auto

lemma chosen_error: "chosen st b = Inl e \<Longrightarrow> e = TypeError"
  unfolding chosen_def by (auto dest!: filter_skills_error js_includes_error)

lemma postOpp_error: "fst (postOpp uid now st b) = Inl e \<Longrightarrow> e = TypeError"
  by (auto simp: postOpp_def Let_def split: sum.splits dest: chosen_error get_prop_error)

lemma postUser_error: "fst (postUser uid st b) = Inl e \<Longrightarrow> e = TypeError"
  by (auto simp: postUser_def Let_def split: sum.splits dest: chosen_error get_prop_error)

text \<open>
  The paths that pass the test of the matches route, \<^verbatim>\<open>startsWith('/api/users/')\<close> and
  \<^verbatim>\<open>endsWith('/matches')\<close>: the two texts with anything between them, and the one path
  in which they share their slash.
\<close>

lemma users_matches_shape:
  "(prefix ''/api/users/'' path \<and> suffix ''/matches'' path) =
     (path = ''/api/users/matches'' \<or> (\<exists>x. path = ''/api/users/'' @ x @ ''/matches''))"
proof
  assume "prefix ''/api/users/'' path \<and> suffix ''/matches'' path"
  then obtain r where r: "path = ''/api/users/'' @ r" and s: "suffix ''/matches'' (''/api/users/'' @ r)"
    by (auto elim: prefixE)
  from s have "suffix ''/matches'' r \<or> (\<exists>q. ''/matches'' = q @ r \<and> suffix q ''/api/users/'')"
    by (simp only: suffix_append)
  then show "path = ''/api/users/matches'' \<or> (\<exists>x. path = ''/api/users/'' @ x @ ''/matches'')"
  proof
    assume "suffix ''/matches'' r"
    then obtain x where "r = x @ ''/matches''"
      by (auto elim: suffixE)
    with r show ?thesis by blast
  next
    assume "\<exists>q. ''/matches'' = q @ r \<and> suffix q ''/api/users/''"
    then obtain q where q: "''/matches'' = q @ r" and sq: "suffix q ''/api/users/''"
      by blast
    from q sq have "r = ''matches'' \<or> r = ''/matches''"
      by (auto simp: Cons_eq_append_conv suffix_to_prefix)
    with r show ?thesis by auto
  qed
next
  assume "path = ''/api/users/matches'' \<or> (\<exists>x. path = ''/api/users/'' @ x @ ''/matches'')"
  then show "prefix ''/api/users/'' path \<and> suffix ''/matches'' path"
  proof
    assume "path = ''/api/users/matches''"
    then show ?thesis by (simp add: suffix_to_prefix)
  next
    assume "\<exists>x. path = ''/api/users/'' @ x @ ''/matches''"
    then obtain x where "path = ''/api/users/'' @ (x @ ''/matches'')"
      by auto
    then show ?thesis
      by (simp only: prefixI suffix_appendI suffix_order.refl simp_thms)
  qed
qed

lemma spec_route_table_routed:
  assumes "spec_route_table path m"
  shows "path = ''/api/skills'' \<and> m = ''GET'' \<or>
         path = ''/api/opportunities'' \<and> m = ''GET'' \<or>
         path = ''/api/opportunities'' \<and> m = ''POST'' \<or>
         path = ''/api/users'' \<and> m = ''GET'' \<or>
         path = ''/api/users'' \<and> m = ''POST'' \<or>
         prefix ''/api/users/'' path \<and> suffix ''/matches'' path \<and> m = ''GET''"
proof -
  have p: "\<And>i. prefix ''/api/users/'' (''/api/users/'' @ i @ ''/matches'')"
    by simp
  have s: "\<And>i. suffix ''/matches'' (''/api/users/'' @ i @ ''/matches'')"
    by (rule suffixI [where zs = "''/api/users/'' @ i" for i]) simp
  from assms show ?thesis
    unfolding spec_route_table_def
    by (elim disjE conjE exE) (simp_all only: p s simp_thms)
qed

lemma api_mock_unrouted:
  assumes "USE_MOCK cfg"
    and "\<not> (path = ''/api/skills'' \<and> method_of plat options = ''GET'')"
    and "\<not> (path = ''/api/opportunities'' \<and> method_of plat options = ''GET'')"
    and "\<not> (path = ''/api/opportunities'' \<and> method_of plat options = ''POST'')"
    and "\<not> (path = ''/api/users'' \<and> method_of plat options = ''GET'')"
    and "\<not> (path = ''/api/users'' \<and> method_of plat options = ''POST'')"
    and "\<not> (prefix ''/api/users/'' path \<and> suffix ''/matches'' path \<and>
             method_of plat options = ''GET'')"
  shows "api cfg plat uid now st path options =
           (case body_of plat options of
              Inl e \<Rightarrow> (Inl e, st)
            | Inr b \<Rightarrow>
                (Inl (Error (''Mock route not implemented: '' @ method_of plat options @ '' '' @ path)),
                 st))"
  using assms by (auto simp: api_def Let_def split: sum.splits)

lemma api_mock_routed:
  assumes "USE_MOCK cfg" and "body_of plat options = Inr b"
    and "path = ''/api/skills'' \<and> method_of plat options = ''GET'' \<or>
         path = ''/api/opportunities'' \<and> method_of plat options = ''GET'' \<or>
         path = ''/api/opportunities'' \<and> method_of plat options = ''POST'' \<or>
         path = ''/api/users'' \<and> method_of plat options = ''GET'' \<or>
         path = ''/api/users'' \<and> method_of plat options = ''POST'' \<or>
         prefix ''/api/users/'' path \<and> suffix ''/matches'' path \<and>
           method_of plat options = ''GET''"
  shows "fst (api cfg plat uid now st path options) \<noteq> Inl (Error msg)"
proof -
  have o: "map_sum id Opp (fst (postOpp uid now st b)) \<noteq> Inl (Error msg)"
    using postOpp_error [of uid now st b] by (cases "fst (postOpp uid now st b)") auto
  have u: "map_sum id UserR (fst (postUser uid st b)) \<noteq> Inl (Error msg)"
    using postUser_error [of uid st b] by (cases "fst (postUser uid st b)") auto
  from assms o u show ?thesis
    by (auto simp: api_def Let_def case_prod_beta split: option.splits)
qed

lemma body_of_no_fetch: "body_of (plat\<lparr>fetch := f\<rparr>) options = body_of plat options"
  by (simp add: body_of_def split: option.splits)

lemma method_of_no_fetch: "method_of (plat\<lparr>fetch := f\<rparr>) options = method_of plat options"
  by (simp add: method_of_def)

lemma getOpps_no_fetch: "getOpps (plat\<lparr>fetch := f\<rparr>) st = getOpps plat st"
  by (simp add: getOpps_def)

lemma api_mock_no_fetch:
  "USE_MOCK cfg \<Longrightarrow>
     api cfg (plat\<lparr>fetch := f\<rparr>) uid now st path options = api cfg plat uid now st path options"
  by (simp add: api_def body_of_no_fetch method_of_no_fetch getOpps_no_fetch
        cong: sum.case_cong if_cong)

lemma method_of_POST: "method_of ex_plat (ex_post b) = ''POST''"
  by (simp add: method_of_def ex_post_def ex_plat_def ex_toUpperCase_def)

lemma method_of_None: "method_of ex_plat None = ''GET''"
  by (simp add: method_of_def ex_plat_def ex_toUpperCase_def)

lemma method_of_get_lower: "method_of ex_plat ex_get_lower = ''GET''"
  by (simp add: method_of_def ex_get_lower_def ex_plat_def ex_toUpperCase_def)

lemma ex_body_parsed: "body_of ex_plat (ex_post ''{}'') = Inr (JObj [])"
  by (simp add: body_of_def ex_post_def ex_plat_def ex_parse_def)

lemma ex_overlap_off_table: "\<not> spec_route_table ''/api/users/matches'' ''GET''"
  by (auto simp: spec_route_table_def dest: arg_cong [where f = length])

lemma ex_segments_off_table: "\<not> spec_route_table ''/api/users/u1/x/y/matches'' ''GET''"
proof -
  have "\<And>i. ''/api/users/u1/x/y/matches'' = ''/api/users/'' @ i @ ''/matches'' \<Longrightarrow> i = ''u1/x/y''"
  proof -
    fix i :: string
    assume "''/api/users/u1/x/y/matches'' = ''/api/users/'' @ i @ ''/matches''"
    then have "''u1/x/y'' @ ''/matches'' = i @ ''/matches''"
      by simp
    then show "i = ''u1/x/y''"
      by (simp only: append_same_eq)
  qed
  then show ?thesis
    by (auto simp: spec_route_table_def)
qed

text \<open>
  C6, as first stated: in mock mode the method and the path are matched literally
  against the route table, and every pair outside the table fails with the error "Mock
  route not implemented". Four requests outside the table do otherwise. An unknown
  route with a body that is not JSON fails with the parser's \<^verbatim>\<open>SyntaxError\<close>, because
  the body is parsed before the router runs. \<^verbatim>\<open>GET /api/users/matches\<close> has no id
  segment, yet passes the test of the matches route and returns the empty array.
  \<^verbatim>\<open>GET /api/users/u1/x/y/matches\<close> has three segments for the id and returns the matches
  of \<^verbatim>\<open>u1\<close>. The method \<^verbatim>\<open>get\<close> is not the \<^verbatim>\<open>GET\<close> of the table, yet is upper-cased
  first and served.
\<close>

theorem mock_unknown_route_counterexample:
  "USE_MOCK ex_mock \<and>
   \<not> spec_route_table ''/api/unknown'' ''POST'' \<and>
   api ex_mock ex_plat ''n4'' ''2024-01-04T00:00:00.000Z'' ex_store ''/api/unknown'' (ex_post ''{'')
     = (Inl SyntaxError, ex_store) \<and>
   SyntaxError \<noteq> Error (''Mock route not implemented: POST /api/unknown'') \<and>
   \<not> spec_route_table ''/api/users/matches'' ''GET'' \<and>
   api ex_mock ex_plat ''n4'' ''2024-01-04T00:00:00.000Z'' ex_store ''/api/users/matches'' None
     = (Inr (Opps []), ex_store) \<and>
   \<not> spec_route_table ''/api/users/u1/x/y/matches'' ''GET'' \<and>
   api ex_mock ex_plat ''n4'' ''2024-01-04T00:00:00.000Z'' ex_store ''/api/users/u1/x/y/matches'' None
     = (Inr (Opps (fst (getMatches ex_store ''u1''))), ex_store) \<and>
   \<not> spec_route_table ''/api/skills'' ''get'' \<and>
   api ex_mock ex_plat ''n4'' ''2024-01-04T00:00:00.000Z'' ex_store ''/api/skills'' ex_get_lower
     = (Inr (Skills (skills ex_store)), ex_store)"
proof -
  have m: "USE_MOCK ex_mock"
    by (simp add: ex_mock_def)
  have b: "body_of ex_plat (ex_post ''{'') = Inl SyntaxError"
    by (simp add: body_of_def ex_post_def ex_plat_def ex_parse_def)
  have a1: "api ex_mock ex_plat ''n4'' ''2024-01-04T00:00:00.000Z'' ex_store ''/api/unknown''
              (ex_post ''{'') = (Inl SyntaxError, ex_store)"
    by (simp add: api_def m b)
  have t1: "\<not> spec_route_table ''/api/unknown'' ''POST''"
    by (simp add: spec_route_table_def)
  have n: "body_of ex_plat None = Inr JUndefined"
    by (simp add: body_of_def)
  have g: "getMatches ex_store ''matches'' = ([], ex_store)"
    by (simp add: getMatches_def ex_defs)
  have a2: "api ex_mock ex_plat ''n4'' ''2024-01-04T00:00:00.000Z'' ex_store ''/api/users/matches''
              None = (Inr (Opps []), ex_store)"
    by (simp add: api_def m n method_of_None suffix_to_prefix at_index_def g)
  have a3: "api ex_mock ex_plat ''n4'' ''2024-01-04T00:00:00.000Z'' ex_store
              ''/api/users/u1/x/y/matches'' None
              = (Inr (Opps (fst (getMatches ex_store ''u1''))), ex_store)"
    by (simp add: api_def m n method_of_None suffix_to_prefix at_index_def case_prod_beta
          getMatches_store)
  have t4: "\<not> spec_route_table ''/api/skills'' ''get''"
    by (simp add: spec_route_table_def)
  have l: "body_of ex_plat ex_get_lower = Inr JUndefined"
    by (simp add: body_of_def ex_get_lower_def)
  have a4: "api ex_mock ex_plat ''n4'' ''2024-01-04T00:00:00.000Z'' ex_store ''/api/skills''
              ex_get_lower = (Inr (Skills (skills ex_store)), ex_store)"
    by (simp add: api_def m l method_of_get_lower getSkills_def)
  from m t1 a1 ex_overlap_off_table a2 ex_segments_off_table a3 t4 a4 show ?thesis
    by simp
qed

text \<open>
  C6, amended. In mock mode the method is upper-cased (\<^verbatim>\<open>GET\<close> when absent) and then
  matched with the path against the route table, the matches route being tested only as
  a path that starts with \<^verbatim>\<open>/api/users/\<close> and ends with \<^verbatim>\<open>/matches\<close>. Every pair whose
  upper-cased method and path are outside the table, other than \<^verbatim>\<open>GET\<close> on such a path,
  fails and leaves the store as it was: with the error "Mock route not implemented:
  METHOD PATH" when the body is absent, empty or parses, and with the parser's error
  when the body does not parse. The outcome does not depend on \<^verbatim>\<open>fetch\<close>: the network
  is not used. A pair in the table, with a body that is absent or parses, is never
  answered with that error.
\<close>

theorem mock_unknown_route_fails:
  assumes "USE_MOCK cfg"
  shows
  "(\<not> spec_route_table path (method_of plat options) \<and>
    \<not> (method_of plat options = ''GET'' \<and>
       (path = ''/api/users/matches'' \<or> (\<exists>x. path = ''/api/users/'' @ x @ ''/matches'')))
    \<longrightarrow>
      api cfg plat uid now st path options =
        (case body_of plat options of
           Inl e \<Rightarrow> (Inl e, st)
         | Inr b \<Rightarrow>
             (Inl (Error (''Mock route not implemented: '' @ method_of plat options @ '' '' @ path)),
              st)) \<and>
      (\<exists>e. api cfg plat uid now st path options = (Inl e, st)) \<and>
      (\<forall>f. api cfg (plat\<lparr>fetch := f\<rparr>) uid now st path options =
            api cfg plat uid now st path options)) \<and>
   (spec_route_table path (method_of plat options) \<and> (\<exists>b. body_of plat options = Inr b)
    \<longrightarrow>
      fst (api cfg plat uid now st path options) \<noteq>
        Inl (Error (''Mock route not implemented: '' @ method_of plat options @ '' '' @ path)))"
  (is "(?off \<longrightarrow> ?fails) \<and> (?on \<longrightarrow> ?served)")
proof (rule conjI)
  show "?off \<longrightarrow> ?fails"
  proof (rule impI)
    assume off: ?off
    then have shape: "\<not> (prefix ''/api/users/'' path \<and> suffix ''/matches'' path \<and>
                          method_of plat options = ''GET'')"
      using users_matches_shape [of path] by blast
    from off have lit:
      "\<not> (path = ''/api/skills'' \<and> method_of plat options = ''GET'')"
      "\<not> (path = ''/api/opportunities'' \<and> method_of plat options = ''GET'')"
      "\<not> (path = ''/api/opportunities'' \<and> method_of plat options = ''POST'')"
      "\<not> (path = ''/api/users'' \<and> method_of plat options = ''GET'')"
      "\<not> (path = ''/api/users'' \<and> method_of plat options = ''POST'')"
      by (auto simp: spec_route_table_def)
    have eq: "api cfg plat uid now st path options =
        (case body_of plat options of
           Inl e \<Rightarrow> (Inl e, st)
         | Inr b \<Rightarrow>
             (Inl (Error (''Mock route not implemented: '' @ method_of plat options @ '' '' @ path)),
              st))"
      using assms lit shape by (rule api_mock_unrouted)
    then have ex: "\<exists>e. api cfg plat uid now st path options = (Inl e, st)"
      by (cases "body_of plat options") simp_all
    have nf: "\<forall>f. api cfg (plat\<lparr>fetch := f\<rparr>) uid now st path options =
                  api cfg plat uid now st path options"
      using assms by (simp add: api_mock_no_fetch)
    from eq ex nf show ?fails by blast
  qed
next
  show "?on \<longrightarrow> ?served"
  proof (rule impI)
    assume on: ?on
    then obtain b where b: "body_of plat options = Inr b"
      by blast
    from on have "spec_route_table path (method_of plat options)"
      by blast
    from api_mock_routed [OF assms b spec_route_table_routed [OF this]]
    show ?served .
  qed
qed

theorem mock_unknown_route_fails_witness:
  "USE_MOCK ex_mock \<and>
   \<not> spec_route_table ''/api/unknown'' (method_of ex_plat (ex_post ''{}'')) \<and>
   method_of ex_plat (ex_post ''{}'') = ''POST'' \<and>
   api ex_mock ex_plat ''n4'' ''2024-01-04T00:00:00.000Z'' ex_store ''/api/unknown'' (ex_post ''{}'')
     = (Inl (Error ''Mock route not implemented: POST /api/unknown''), ex_store) \<and>
   \<not> spec_route_table ''/api/nothing'' (method_of ex_plat None) \<and>
   method_of ex_plat None = ''GET'' \<and>
   api ex_mock ex_plat ''n4'' ''2024-01-04T00:00:00.000Z'' ex_store ''/api/nothing'' None
     = (Inl (Error ''Mock route not implemented: GET /api/nothing''), ex_store) \<and>
   spec_route_table ''/api/skills'' (method_of ex_plat None) \<and>
   fst (api ex_mock ex_plat ''n4'' ''2024-01-04T00:00:00.000Z'' ex_store ''/api/skills'' None)
     \<noteq> Inl (Error ''Mock route not implemented: GET /api/skills'')"
proof -
  have m: "USE_MOCK ex_mock"
    by (simp add: ex_mock_def)
  have n: "body_of ex_plat None = Inr JUndefined"
    by (simp add: body_of_def)
  have t1: "\<not> spec_route_table ''/api/unknown'' ''POST''"
    by (simp add: spec_route_table_def)
  have t2: "\<not> spec_route_table ''/api/nothing'' ''GET''"
    by (simp add: spec_route_table_def)
  have s2: "''/api/nothing'' \<noteq> ''/api/users/matches'' \<and>
            (\<nexists>x. ''/api/nothing'' = ''/api/users/'' @ x @ ''/matches'')"
    by simp
  have t3: "spec_route_table ''/api/skills'' ''GET''"
    by (simp add: spec_route_table_def)
  show ?thesis
    using m t1 t2 s2 t3
      mock_unknown_route_fails
        [OF m, of "''/api/unknown''" ex_plat "ex_post ''{}''" "''n4''"
           "''2024-01-04T00:00:00.000Z''" ex_store]
      mock_unknown_route_fails
        [OF m, of "''/api/nothing''" ex_plat None "''n4''" "''2024-01-04T00:00:00.000Z''" ex_store]
      mock_unknown_route_fails
        [OF m, of "''/api/skills''" ex_plat None "''n4''" "''2024-01-04T00:00:00.000Z''" ex_store]
    by (simp add: method_of_POST method_of_None ex_body_parsed n)
qed



subsection \<open>What a call may do to the store\<close>

lemma postOpp_store:
  "snd (postOpp uid now st b) = st \<or>
   (\<exists>opp. matchScore opp = None \<and>
      snd (postOpp uid now st b) = st\<lparr>opportunities := opp # opportunities st\<rparr>)"
proof (cases "postOpp uid now st b")
  case (Pair r st')
  show ?thesis
  proof (cases r)
    case (Inl e)
    with Pair postOpp_failure show ?thesis by fastforce
  next
    case (Inr opp)
    with Pair postOpp_success [of uid now st b opp st'] show ?thesis by auto
  qed
qed

lemma postUser_store:
  "snd (postUser uid st b) = st \<or>
   (\<exists>usr. snd (postUser uid st b) = st\<lparr>users := users st @ [usr]\<rparr>)"
proof (cases "postUser uid st b")
  case (Pair r st')
  show ?thesis
  proof (cases r)
    case (Inl e)
    with Pair postUser_failure show ?thesis by fastforce
  next
    case (Inr usr)
    with Pair postUser_success [of uid st b usr st'] show ?thesis by auto
  qed
qed

lemma api_live_store: "\<not> USE_MOCK cfg \<Longrightarrow> snd (api cfg plat uid now st path options) = st"
  by (simp add: api_def split: fetch_result.splits)

lemma api_mock_store:
  assumes "USE_MOCK cfg" and "body_of plat options = Inr b"
  shows "snd (api cfg plat uid now st path options) = st \<or>
         snd (api cfg plat uid now st path options) = snd (postOpp uid now st b) \<or>
         snd (api cfg plat uid now st path options) = snd (postUser uid st b)"
  using assms
  by (simp add: api_def Let_def case_prod_beta getSkills_def getOpps_def getUsers_def
           getMatches_store split: option.splits)

lemma api_store:
  "snd (api cfg plat uid now st path options) = st \<or>
   (\<exists>opp. matchScore opp = None \<and>
      snd (api cfg plat uid now st path options) = st\<lparr>opportunities := opp # opportunities st\<rparr>) \<or>
   (\<exists>usr. snd (api cfg plat uid now st path options) = st\<lparr>users := users st @ [usr]\<rparr>)"
proof (cases "USE_MOCK cfg")
  case False
  then show ?thesis by (simp add: api_live_store)
next
  case True
  show ?thesis
  proof (cases "body_of plat options")
    case (Inl e)
    with True show ?thesis by (simp add: api_def)
  next
    case (Inr b)
    from api_mock_store [OF True Inr, of uid now st path]
      postOpp_store [of uid now st b] postUser_store [of uid st b]
    show ?thesis by metis
  qed
qed

lemma step_store:
  "step cfg plat st c = st \<or>
   (\<exists>opp. matchScore opp = None \<and>
      step cfg plat st c = st\<lparr>opportunities := opp # opportunities st\<rparr>) \<or>
   (\<exists>usr. step cfg plat st c = st\<lparr>users := users st @ [usr]\<rparr>)"
  unfolding step_def by (rule api_store)

lemma run_Cons: "run cfg plat st (c # cs) = run cfg plat (step cfg plat st c) cs"
  by (simp add: run_def)

lemma step_skills: "skills (step cfg plat st c) = skills st"
  using step_store [of cfg plat st c] by auto

lemma step_opportunities: "suffix (opportunities st) (opportunities (step cfg plat st c))"
  using step_store [of cfg plat st c] by (auto simp: suffix_Cons)

lemma step_users: "prefix (users st) (users (step cfg plat st c))"
  using step_store [of cfg plat st c] by auto

lemma step_unscored:
  "list_all (\<lambda>opp. matchScore opp = None) (opportunities st) \<Longrightarrow>
     list_all (\<lambda>opp. matchScore opp = None) (opportunities (step cfg plat st c))"
  using step_store [of cfg plat st c] by auto

lemma run_skills: "skills (run cfg plat st cs) = skills st"
  by (induction cs arbitrary: st) (simp_all add: run_Cons step_skills, simp add: run_def)

lemma run_opportunities: "suffix (opportunities st) (opportunities (run cfg plat st cs))"
proof (induction cs arbitrary: st)
  case Nil
  show ?case by (simp add: run_def)
next
  case (Cons c cs)
  from step_opportunities Cons.IH show ?case
    unfolding run_Cons by (rule suffix_order.trans)
qed

lemma run_users: "prefix (users st) (users (run cfg plat st cs))"
proof (induction cs arbitrary: st)
  case Nil
  show ?case by (simp add: run_def)
next
  case (Cons c cs)
  from step_users Cons.IH show ?case
    unfolding run_Cons by (rule prefix_order.trans)
qed

lemma run_unscored:
  "list_all (\<lambda>opp. matchScore opp = None) (opportunities st) \<Longrightarrow>
     list_all (\<lambda>opp. matchScore opp = None) (opportunities (run cfg plat st cs))"
proof (induction cs arbitrary: st)
  case Nil
  then show ?case by (simp add: run_def)
next
  case (Cons c cs)
  from Cons.prems have "list_all (\<lambda>opp. matchScore opp = None)
                          (opportunities (step cfg plat st c))"
    by (rule step_unscored)
  then show ?case unfolding run_Cons by (rule Cons.IH)
qed

lemma seed_unscored:
  "list_all (\<lambda>opp. matchScore opp = None) (opportunities (mock_init uid t0 t1 t2))"
  by (simp add: mock_init_def Let_def)

text \<open>
  C8. \<^verbatim>\<open>getMatches\<close> and \<^verbatim>\<open>getOpps\<close> return the store they were given: the scores are
  on the returned copies (every returned entry has one when the user exists) and the
  sort is on a copy, so the stored collection, its order included, is as before. No
  operation stores a score: in a store whose opportunities have no \<^verbatim>\<open>matchScore\<close>, as
  in the seed store, no sequence of calls makes a stored opportunity have one.
\<close>

theorem reads_leave_store_unchanged:
  "snd (getMatches st userId) = st \<and>
   snd (getOpps plat st) = st \<and>
   (find (\<lambda>x. user_id x = userId) (users st) \<noteq> None \<longrightarrow>
      (\<forall>r \<in> set (fst (getMatches st userId)). matchScore r \<noteq> None)) \<and>
   ((\<forall>opp \<in> set (opportunities st). matchScore opp = None) \<longrightarrow>
      (\<forall>opp \<in> set (opportunities (run cfg plat st cs)). matchScore opp = None)) \<and>
   (\<forall>opp \<in> set (opportunities (run cfg plat (mock_init uid t0 t1 t2) cs)).
      matchScore opp = None)"
proof (intro conjI)
  show "snd (getMatches st userId) = st"
    by (rule getMatches_store)
  show "snd (getOpps plat st) = st"
    by (simp add: getOpps_def)
  show "find (\<lambda>x. user_id x = userId) (users st) \<noteq> None \<longrightarrow>
          (\<forall>r \<in> set (fst (getMatches st userId)). matchScore r \<noteq> None)"
    by (auto simp: getMatches_def Let_def)
  show "(\<forall>opp \<in> set (opportunities st). matchScore opp = None) \<longrightarrow>
          (\<forall>opp \<in> set (opportunities (run cfg plat st cs)). matchScore opp = None)"
    using run_unscored [of st cfg plat cs] by (simp add: list_all_iff)
  show "\<forall>opp \<in> set (opportunities (run cfg plat (mock_init uid t0 t1 t2) cs)).
          matchScore opp = None"
    using run_unscored [OF seed_unscored, of cfg plat uid t0 t1 t2 cs]
    by (simp add: list_all_iff)
qed

lemma ex_seed_matches:
  "map matchScore (fst (getMatches ex_seed ''u12'')) = [Some 2, Some 0, Some 0]"
  by (simp add: seed_defs getMatches_def score_def Let_def)


lemma ex_step_matches:
  "step ex_mock ex_plat st
     \<lparr>call_path = ''/api/users/u12/matches'', call_options = None,
      call_uid = i, call_now = t\<rparr> = st"
  by (simp add: step_def api_def ex_mock_def body_of_def method_of_None Let_def at_index_def
        getMatches_store case_prod_beta)

lemma ex_step_list:
  "step ex_mock ex_plat st
     \<lparr>call_path = ''/api/opportunities'', call_options = None,
      call_uid = i, call_now = t\<rparr> = st"
  by (simp add: step_def api_def ex_mock_def body_of_def method_of_None Let_def getOpps_def)

lemma ex_step_create:
  "opportunities
     (step ex_mock ex_plat st
        \<lparr>call_path = ''/api/opportunities'', call_options = ex_post ''{}'',
         call_uid = i, call_now = t\<rparr>) =
   \<lparr>opp_id = i, title = JUndefined, description = JUndefined, createdAt = t,
    opp_skills = [], matchScore = None\<rparr> # opportunities st"
  by (simp add: step_def api_def ex_mock_def ex_body_parsed method_of_POST Let_def
        postOpp_def chosen_falsy)

lemma ex_session_length: "length (opportunities (run ex_mock ex_plat ex_seed ex_calls)) = 4"
  by (simp add: run_def ex_calls_def ex_step_matches ex_step_list ex_step_create)
     (simp add: seed_defs Let_def)

theorem reads_leave_store_unchanged_witness:
  "find (\<lambda>x. user_id x = ''u12'') (users ex_seed) \<noteq> None \<and>
   snd (getMatches ex_seed ''u12'') = ex_seed \<and>
   snd (getOpps ex_plat ex_seed) = ex_seed \<and>
   map matchScore (fst (getMatches ex_seed ''u12'')) = [Some 2, Some 0, Some 0] \<and>
   list_all (\<lambda>r. matchScore r \<noteq> None) (fst (getMatches ex_seed ''u12'')) \<and>
   list_all (\<lambda>opp. matchScore opp = None) (opportunities ex_seed) \<and>
   length (opportunities (run ex_mock ex_plat ex_seed ex_calls)) = 4 \<and>
   list_all (\<lambda>opp. matchScore opp = None) (opportunities (run ex_mock ex_plat ex_seed ex_calls))"
proof -
  have u: "find (\<lambda>x. user_id x = ''u12'') (users ex_seed) \<noteq> None"
    by (simp add: seed_defs Let_def)
  have s: "\<forall>opp \<in> set (opportunities ex_seed). matchScore opp = None"
    by (simp add: seed_defs Let_def)
  show ?thesis
    using u s ex_seed_matches ex_session_length
      reads_leave_store_unchanged
        [of ex_seed "''u12''" ex_plat ex_mock ex_calls ex_uid "''2024-01-03T01:00:00.000Z''"
            "''2024-01-03T00:45:00.000Z''" "''2024-01-03T00:00:00.000Z''"]
    by (simp add: list_all_iff)
qed

text \<open>
  C9. Over any sequence of calls, in either mode, the skill catalog is the one the
  session started with, so \<^verbatim>\<open>getSkills\<close> returns the same skills in the same order;
  the opportunities the session started with are still there, unchanged and in their
  order, behind the ones created since; the users it started with are still there, in
  front of the ones created since. One call adds at most one record.
\<close>

theorem catalog_fixed_collections_grow:
  "skills (run cfg plat st cs) = skills st \<and>
   fst (getSkills (run cfg plat st cs)) = fst (getSkills st) \<and>
   suffix (opportunities st) (opportunities (run cfg plat st cs)) \<and>
   prefix (users st) (users (run cfg plat st cs)) \<and>
   (step cfg plat st c = st \<or>
    (\<exists>opp. step cfg plat st c = st\<lparr>opportunities := opp # opportunities st\<rparr>) \<or>
    (\<exists>usr. step cfg plat st c = st\<lparr>users := users st @ [usr]\<rparr>))"
  using step_store [of cfg plat st c]
  by (auto simp: run_skills run_opportunities run_users getSkills_def)

end
